theory Spec2Isabelle
  imports Complex_Main
begin

section \<open>Brown's double exponential smoothing, as the two Streamlit pages compute it\<close>

text \<open>
  The repository holds two pages, \<^verbatim>\<open>DEPLOY_UAS/deploy2.py\<close> and
  \<^verbatim>\<open>modeling1/deploy1.py\<close>. Each has a function \<^verbatim>\<open>modeling_page(df)\<close>
  whose body, run when the button is pressed, smooths the column \<^verbatim>\<open>gini_disp\<close>
  twice, derives level and slope, rebuilds a one-step-ahead forecast, measures its error
  and extrapolates five years. The statements from \<^verbatim>\<open>S1 = [y[0]]\<close> to the line
  computing \<^verbatim>\<open>mape\<close> are the same in both files and are embedded once; the two
  pages differ in the years of the future table only.

  Numbers: the arithmetic on finite values is the arithmetic of the reals (rounding and
  overflow of IEEE doubles are not part of this model; the smoothing loop is given a
  second time with binary64 rounding, for the one property that depends on it). The
  values that are not finite are explicit, because the code produces them:
  \<^verbatim>\<open>np.nan\<close> heads the forecast list, and numpy divides by zero without raising.
\<close>

subsection \<open>numpy floats\<close>

datatype npfloat = Fin real | PInf | NInf | NaN

fun np_neg :: "npfloat \<Rightarrow> npfloat" where
  "np_neg (Fin x) = Fin (- x)"
| "np_neg PInf = NInf"
| "np_neg NInf = PInf"
| "np_neg NaN = NaN"

fun np_add :: "npfloat \<Rightarrow> npfloat \<Rightarrow> npfloat" where
  "np_add NaN _ = NaN"
| "np_add _ NaN = NaN"
| "np_add (Fin x) (Fin y) = Fin (x + y)"
| "np_add (Fin _) PInf = PInf"
| "np_add (Fin _) NInf = NInf"
| "np_add PInf (Fin _) = PInf"
| "np_add PInf PInf = PInf"
| "np_add PInf NInf = NaN"
| "np_add NInf (Fin _) = NInf"
| "np_add NInf PInf = NaN"
| "np_add NInf NInf = NInf"

definition np_sub :: "npfloat \<Rightarrow> npfloat \<Rightarrow> npfloat" where
  "np_sub x y = np_add x (np_neg y)"

fun np_abs :: "npfloat \<Rightarrow> npfloat" where
  "np_abs (Fin x) = Fin \<bar>x\<bar>"
| "np_abs PInf = PInf"
| "np_abs NInf = PInf"
| "np_abs NaN = NaN"

text \<open>An infinity times or over a finite value: the sign of the finite value decides,
  and zero times infinity is not a number.\<close>

definition signed_inf :: "bool \<Rightarrow> npfloat" where
  "signed_inf positive = (if positive then PInf else NInf)"

fun np_mul :: "npfloat \<Rightarrow> npfloat \<Rightarrow> npfloat" where
  "np_mul NaN _ = NaN"
| "np_mul _ NaN = NaN"
| "np_mul (Fin x) (Fin y) = Fin (x * y)"
| "np_mul (Fin x) PInf = (if x = 0 then NaN else signed_inf (0 < x))"
| "np_mul (Fin x) NInf = (if x = 0 then NaN else signed_inf (x < 0))"
| "np_mul PInf (Fin y) = (if y = 0 then NaN else signed_inf (0 < y))"
| "np_mul NInf (Fin y) = (if y = 0 then NaN else signed_inf (y < 0))"
| "np_mul PInf PInf = PInf"
| "np_mul PInf NInf = NInf"
| "np_mul NInf PInf = NInf"
| "np_mul NInf NInf = PInf"

text \<open>Division as numpy does it on arrays: a finite non-zero value over zero is an
  infinity, zero over zero is not a number, and nothing is raised. (The sign of a zero
  divisor is not modelled; the only quotients by zero below go through \<open>np_abs\<close>.)\<close>

fun np_div :: "npfloat \<Rightarrow> npfloat \<Rightarrow> npfloat" where
  "np_div NaN _ = NaN"
| "np_div _ NaN = NaN"
| "np_div (Fin x) (Fin y) =
     (if y = 0 then (if x = 0 then NaN else signed_inf (0 < x)) else Fin (x / y))"
| "np_div (Fin _) PInf = Fin 0"
| "np_div (Fin _) NInf = Fin 0"
| "np_div PInf (Fin y) = signed_inf (0 \<le> y)"
| "np_div NInf (Fin y) = signed_inf (y < 0)"
| "np_div PInf PInf = NaN"
| "np_div PInf NInf = NaN"
| "np_div NInf PInf = NaN"
| "np_div NInf NInf = NaN"

fun np_sqrt :: "npfloat \<Rightarrow> npfloat" where
  "np_sqrt (Fin x) = (if x < 0 then NaN else Fin (sqrt x))"
| "np_sqrt PInf = PInf"
| "np_sqrt NInf = NaN"
| "np_sqrt NaN = NaN"

definition np_sum :: "npfloat list \<Rightarrow> npfloat" where
  "np_sum xs = foldr np_add xs (Fin 0)"

text \<open>\<^verbatim>\<open>np.mean\<close>: the sum over the count. On an empty array that is zero over
  zero: numpy warns and returns \<^verbatim>\<open>nan\<close>.\<close>

definition np_mean :: "npfloat list \<Rightarrow> npfloat" where
  "np_mean xs = np_div (np_sum xs) (Fin (real (length xs)))"

subsection \<open>The smoothing and its coefficients\<close>

datatype py_error = IndexError | ZeroDivisionError

text \<open>
  \<^verbatim>\<open>
  for t in range(1, len(y)):
      S1.append(alpha * y[t] + (1 - alpha) * S1[t-1])
      S2.append(alpha * S1[t] + (1 - alpha) * S2[t-1])
  \<close>
  One pass of the loop body on the pair of lists; \<^verbatim>\<open>S1[t]\<close> in the second
  statement reads the element just appended.
\<close>

definition smooth_step :: "real \<Rightarrow> real list \<Rightarrow> real list \<times> real list \<Rightarrow> nat \<Rightarrow> real list \<times> real list" where
  "smooth_step alpha y S t =
     (let S1' = fst S @ [alpha * y ! t + (1 - alpha) * fst S ! (t - 1)];
          S2' = snd S @ [alpha * S1' ! t + (1 - alpha) * snd S ! (t - 1)]
      in (S1', S2'))"

definition smoothing :: "real \<Rightarrow> real list \<Rightarrow> real list \<times> real list" where
  "smoothing alpha y = foldl (smooth_step alpha y) ([y ! 0], [y ! 0]) [1..<length y]"

text \<open>\<^verbatim>\<open>a = [2*S1[i] - S2[i] for i in range(len(y))]\<close>\<close>

definition level_coeffs :: "real list \<Rightarrow> real list \<Rightarrow> nat \<Rightarrow> real list" where
  "level_coeffs s1 s2 n = map (\<lambda>i. 2 * s1 ! i - s2 ! i) [0..<n]"

text \<open>\<^verbatim>\<open>b = [(alpha/(1-alpha)) * (S1[i] - S2[i]) for i in range(len(y))]\<close>.
  Here \<^verbatim>\<open>alpha\<close> is a Python float, so the quotient raises
  \<^verbatim>\<open>ZeroDivisionError\<close> when \<^verbatim>\<open>alpha\<close> is one, at the first element built.\<close>

definition slope_coeffs :: "real \<Rightarrow> real list \<Rightarrow> real list \<Rightarrow> nat \<Rightarrow> py_error + real list" where
  "slope_coeffs alpha s1 s2 n =
     (if 0 < n \<and> 1 - alpha = 0 then Inl ZeroDivisionError
      else Inr (map (\<lambda>i. (alpha / (1 - alpha)) * (s1 ! i - s2 ! i)) [0..<n]))"

text \<open>
  \<^verbatim>\<open>
  forecast = [np.nan]
  for i in range(1, len(y)):
      forecast.append(a[i-1] + b[i-1])
  \<close>
\<close>

definition in_sample_forecast :: "real list \<Rightarrow> real list \<Rightarrow> nat \<Rightarrow> npfloat list" where
  "in_sample_forecast a b n =
     foldl (\<lambda>forecast i. forecast @ [Fin (a ! (i - 1) + b ! (i - 1))]) [NaN] [1..<n]"

subsection \<open>The accuracy metrics\<close>

text \<open>
  \<^verbatim>\<open>
  actual = y[1:]
  pred = np.array(forecast[1:])
  mae = np.mean(np.abs(actual - pred))
  mse = np.mean((actual - pred)**2)
  rmse = np.sqrt(mse)
  mape = np.mean(np.abs((actual - pred) / actual)) * 100
  \<close>
  Both arrays have \<open>len(y) - 1\<close> elements; the operations are elementwise.
\<close>

definition errors_of :: "npfloat list \<Rightarrow> npfloat list \<Rightarrow> npfloat list" where
  "errors_of actual pred = map2 np_sub actual pred"

definition mae_of :: "npfloat list \<Rightarrow> npfloat list \<Rightarrow> npfloat" where
  "mae_of actual pred = np_mean (map np_abs (errors_of actual pred))"

definition mse_of :: "npfloat list \<Rightarrow> npfloat list \<Rightarrow> npfloat" where
  "mse_of actual pred = np_mean (map (\<lambda>e. np_mul e e) (errors_of actual pred))"

definition rmse_of :: "npfloat list \<Rightarrow> npfloat list \<Rightarrow> npfloat" where
  "rmse_of actual pred = np_sqrt (mse_of actual pred)"

definition mape_of :: "npfloat list \<Rightarrow> npfloat list \<Rightarrow> npfloat" where
  "mape_of actual pred =
     np_mul (np_mean (map np_abs (map2 np_div (errors_of actual pred) actual))) (Fin 100)"

subsection \<open>The part the two pages share\<close>

record des_core =
  S1 :: "real list"
  S2 :: "real list"
  coef_a :: "real list"
  coef_b :: "real list"
  forecast :: "npfloat list"
  mae :: npfloat
  mse :: npfloat
  rmse :: npfloat
  mape :: npfloat

text \<open>The first statement, \<^verbatim>\<open>S1 = [y[0]]\<close>, raises \<^verbatim>\<open>IndexError\<close> on an
  empty column. Nothing in the code checks \<^verbatim>\<open>alpha\<close> or the length of the series.\<close>

definition des_brown :: "real \<Rightarrow> real list \<Rightarrow> py_error + des_core" where
  "des_brown alpha y =
     (if y = [] then Inl IndexError
      else
        let (s1, s2) = smoothing alpha y;
            a = level_coeffs s1 s2 (length y)
        in case slope_coeffs alpha s1 s2 (length y) of
             Inl e \<Rightarrow> Inl e
           | Inr b \<Rightarrow>
               let fc = in_sample_forecast a b (length y);
                   actual = map Fin (drop 1 y);
                   pred = drop 1 fc
               in Inr \<lparr>S1 = s1, S2 = s2, coef_a = a, coef_b = b, forecast = fc,
                        mae = mae_of actual pred, mse = mse_of actual pred,
                        rmse = rmse_of actual pred, mape = mape_of actual pred\<rparr>)"

subsection \<open>The future table\<close>

text \<open>\<^verbatim>\<open>np.arange(start, stop)\<close> on integers: \<open>start, start + 1, ..., stop - 1\<close>.\<close>

definition np_arange :: "int \<Rightarrow> int \<Rightarrow> int list" where
  "np_arange start stop = [start..stop - 1]"

text \<open>
  \<^verbatim>\<open>deploy2.py\<close>, continuing after the last observed year:
  \<^verbatim>\<open>
  future_years = np.arange(tahun[-1] + 1, tahun[-1] + 6)
  future_forecast = [a[-1] + b[-1]*m for m in range(1, 6)]
  df_future = pd.DataFrame({"Year": future_years, "Forecast_GINI_Disp": future_forecast})
  \<close>
\<close>

definition df_future_deploy2 :: "int list \<Rightarrow> real list \<Rightarrow> real list \<Rightarrow> (int \<times> real) list" where
  "df_future_deploy2 tahun a b =
     (let future_years = np_arange (last tahun + 1) (last tahun + 6);
          future_forecast = map (\<lambda>m. last a + last b * real m) [1..<6]
      in zip future_years future_forecast)"

text \<open>
  \<^verbatim>\<open>deploy1.py\<close>, from a fixed year:
  \<^verbatim>\<open>
  start_year = 2022
  n_forecast = 5
  future_years = np.arange(start_year, start_year + n_forecast)
  future_forecast = [a[-1] + b[-1] * m for m in range(1, n_forecast + 1)]
  df_future = pd.DataFrame({"Year": future_years, "Forecast_GINI_Disp": future_forecast})
  \<close>
  The last three statements are written against the two names, and are embedded as a
  function of them; the page binds them to 2022 and 5.
\<close>

definition df_future_from :: "int \<Rightarrow> nat \<Rightarrow> real list \<Rightarrow> real list \<Rightarrow> (int \<times> real) list" where
  "df_future_from start_year n_forecast a b =
     (let future_years = np_arange start_year (start_year + int n_forecast);
          future_forecast = map (\<lambda>m. last a + last b * real m) [1..<n_forecast + 1]
      in zip future_years future_forecast)"

definition df_future_deploy1 :: "real list \<Rightarrow> real list \<Rightarrow> (int \<times> real) list" where
  "df_future_deploy1 a b = (let start_year = 2022; n_forecast = 5 in df_future_from start_year n_forecast a b)"

subsection \<open>The two pages\<close>

text \<open>The data frame after \<^verbatim>\<open>load_data\<close>: rows of year and value, sorted by year.
  \<^verbatim>\<open>tahun = df["year"].values\<close> and \<^verbatim>\<open>y = df["gini_disp"].values\<close>.\<close>

type_synonym dataframe = "(int \<times> real) list"

definition modeling_page_deploy2 :: "real \<Rightarrow> dataframe \<Rightarrow> py_error + des_core \<times> (int \<times> real) list" where
  "modeling_page_deploy2 alpha df =
     (let tahun = map fst df; y = map snd df
      in case des_brown alpha y of
           Inl e \<Rightarrow> Inl e
         | Inr r \<Rightarrow> Inr (r, df_future_deploy2 tahun (coef_a r) (coef_b r)))"

definition modeling_page_deploy1 :: "real \<Rightarrow> dataframe \<Rightarrow> py_error + des_core \<times> (int \<times> real) list" where
  "modeling_page_deploy1 alpha df =
     (let y = map snd df
      in case des_brown alpha y of
           Inl e \<Rightarrow> Inl e
         | Inr r \<Rightarrow> Inr (r, df_future_deploy1 (coef_a r) (coef_b r)))"

text \<open>\<^verbatim>\<open>alpha = st.slider("Nilai Alpha", 0.1, 0.9, 0.8)\<close>: the widget hands back a value
  between its minimum and its maximum, whatever the user does.\<close>

definition alpha_slider :: "real \<Rightarrow> bool" where
  "alpha_slider alpha = (1 / 10 \<le> alpha \<and> alpha \<le> 9 / 10)"

subsection \<open>The smoothing loop in binary64\<close>





subsection \<open>Series to run the pages on\<close>

text \<open>Four years of observations, tried below with \<open>alpha = 0.8\<close>, the slider's
  default; two years of which the second has the value zero; and the first two of the
  four years.\<close>

definition zero_actual_example :: dataframe where
  "zero_actual_example = [(2018, 3 / 5), (2019, 0)]"

definition two_year_example :: dataframe where
  "two_year_example = [(2018, 3 / 5), (2019, 31 / 50)]"

definition worked_example :: dataframe where
  "worked_example = [(2018, 60 / 100), (2019, 62 / 100), (2020, 59 / 100), (2021, 63 / 100)]"

subsection \<open>What the smoothing loop maintains\<close>

text \<open>After the pass for \<open>t = n - 1\<close> both lists have \<open>n\<close> elements, start with
  \<open>y[0]\<close>, and every later element was built from its predecessor. This is also why
  \<^verbatim>\<open>S1[t-1]\<close>, \<^verbatim>\<open>S1[t]\<close> and \<^verbatim>\<open>S2[t-1]\<close> are always in range.\<close>

definition smooth_inv :: "real \<Rightarrow> real list \<Rightarrow> nat \<Rightarrow> real list \<times> real list \<Rightarrow> bool" where
  "smooth_inv alpha y n S =
     (length (fst S) = n \<and> length (snd S) = n \<and> fst S ! 0 = y ! 0 \<and> snd S ! 0 = y ! 0 \<and>
      (\<forall>t. 1 \<le> t \<and> t < n \<longrightarrow>
         fst S ! t = alpha * y ! t + (1 - alpha) * fst S ! (t - 1) \<and>
         snd S ! t = alpha * fst S ! t + (1 - alpha) * snd S ! (t - 1)))"

section \<open>Properties\<close>

subsection \<open>The loop invariant\<close>

lemma smooth_inv_init: "smooth_inv alpha y (Suc 0) ([y ! 0], [y ! 0])"
  by (simp add: smooth_inv_def)

lemma smooth_step_eq:
  "n = length s1 \<Longrightarrow> smooth_step alpha y (s1, s2) n =
     (s1 @ [alpha * y ! n + (1 - alpha) * s1 ! (n - 1)],
      s2 @ [alpha * (alpha * y ! n + (1 - alpha) * s1 ! (n - 1)) + (1 - alpha) * s2 ! (n - 1)])"
  by (simp add: smooth_step_def Let_def)

lemma smooth_inv_step:
  assumes inv: "smooth_inv alpha y n S" and n: "1 \<le> n"
  shows "smooth_inv alpha y (Suc n) (smooth_step alpha y S n)"
proof -
  obtain s1 s2 where S: "S = (s1, s2)" by (cases S)
  define x1 where "x1 = alpha * y ! n + (1 - alpha) * s1 ! (n - 1)"
  define x2 where "x2 = alpha * x1 + (1 - alpha) * s2 ! (n - 1)"
  from inv S have len: "length s1 = n" "length s2 = n"
    and hd: "s1 ! 0 = y ! 0" "s2 ! 0 = y ! 0"
    by (simp_all add: smooth_inv_def)
  from inv S have rec: "s1 ! t = alpha * y ! t + (1 - alpha) * s1 ! (t - 1) \<and>
         s2 ! t = alpha * s1 ! t + (1 - alpha) * s2 ! (t - 1)" if "1 \<le> t" "t < n" for t
    using that by (simp add: smooth_inv_def)
  have step: "smooth_step alpha y S n = (s1 @ [x1], s2 @ [x2])"
    unfolding S x1_def x2_def by (rule smooth_step_eq [OF len(1) [symmetric]])
  have old1: "(s1 @ [x1]) ! t = s1 ! t" if "t < n" for t
    using that len by (simp add: nth_append)
  have old2: "(s2 @ [x2]) ! t = s2 ! t" if "t < n" for t
    using that len by (simp add: nth_append)
  have new1: "(s1 @ [x1]) ! n = x1" using len by (simp add: nth_append)
  have new2: "(s2 @ [x2]) ! n = x2" using len by (simp add: nth_append)
  have "(s1 @ [x1]) ! t = alpha * y ! t + (1 - alpha) * (s1 @ [x1]) ! (t - 1) \<and>
        (s2 @ [x2]) ! t = alpha * (s1 @ [x1]) ! t + (1 - alpha) * (s2 @ [x2]) ! (t - 1)"
    if t: "1 \<le> t" "t < Suc n" for t
  proof (cases "t < n")
    case True
    then have "t - 1 < n" by simp
    with True rec [OF t(1) True] show ?thesis by (simp only: old1 old2)
  next
    case False
    with t have tn: "t = n" by simp
    from n have "n - 1 < n" by simp
    then have "(s1 @ [x1]) ! (n - 1) = s1 ! (n - 1)" "(s2 @ [x2]) ! (n - 1) = s2 ! (n - 1)"
      by (rule old1, rule old2)
    then show ?thesis unfolding tn new1 new2 by (simp add: x1_def x2_def)
  qed
  moreover have "(s1 @ [x1]) ! 0 = y ! 0" "(s2 @ [x2]) ! 0 = y ! 0"
    using n hd by (simp_all add: old1 old2)
  moreover have "length (s1 @ [x1]) = Suc n" "length (s2 @ [x2]) = Suc n"
    using len by simp_all
  ultimately show ?thesis
    unfolding step smooth_inv_def fst_conv snd_conv by blast
qed

lemma smooth_inv_foldl:
  "1 \<le> n \<Longrightarrow> smooth_inv alpha y n (foldl (smooth_step alpha y) ([y ! 0], [y ! 0]) [1..<n])"
proof (induction n rule: nat_induct_at_least)
  case base
  show ?case using smooth_inv_init [of alpha y] by simp
next
  case (Suc n)
  then show ?case by (simp add: smooth_inv_step)
qed

lemma smoothing_inv: "y \<noteq> [] \<Longrightarrow> smooth_inv alpha y (length y) (smoothing alpha y)"
  unfolding smoothing_def by (rule smooth_inv_foldl) (cases y, simp_all)

subsection \<open>The shared part, statement by statement\<close>

lemma foldl_append_each: "foldl (\<lambda>acc i. acc @ [f i]) acc xs = acc @ map f xs"
  by (induction xs arbitrary: acc) simp_all

lemma in_sample_forecast_map:
  "in_sample_forecast a b n = NaN # map (\<lambda>i. Fin (a ! (i - 1) + b ! (i - 1))) [1..<n]"
  unfolding in_sample_forecast_def by (simp add: foldl_append_each)

lemma drop_1_nth: "drop 1 y = map (\<lambda>i. y ! i) [1..<length y]"
proof -
  have "drop 1 (map (\<lambda>i. y ! i) [0..<length y]) = map (\<lambda>i. y ! i) (drop 1 [0..<length y])"
    by (rule drop_map)
  then show ?thesis by (simp add: map_nth)
qed

lemma des_brown_empty: "des_brown alpha [] = Inl IndexError"
  by (simp add: des_brown_def)

lemma des_brown_alpha_one: "y \<noteq> [] \<Longrightarrow> des_brown 1 y = Inl ZeroDivisionError"
  by (simp add: des_brown_def slope_coeffs_def Let_def split: prod.split)

lemma des_brown_result:
  assumes "y \<noteq> []" and "alpha \<noteq> 1"
  shows "\<exists>r. des_brown alpha y = Inr r \<and>
    S1 r = fst (smoothing alpha y) \<and> S2 r = snd (smoothing alpha y) \<and>
    coef_a r = map (\<lambda>i. 2 * S1 r ! i - S2 r ! i) [0..<length y] \<and>
    coef_b r = map (\<lambda>i. (alpha / (1 - alpha)) * (S1 r ! i - S2 r ! i)) [0..<length y] \<and>
    forecast r = NaN # map (\<lambda>i. Fin (coef_a r ! (i - 1) + coef_b r ! (i - 1))) [1..<length y] \<and>
    mae r = mae_of (map (\<lambda>i. Fin (y ! i)) [1..<length y]) (map (\<lambda>i. Fin (coef_a r ! (i - 1) + coef_b r ! (i - 1))) [1..<length y]) \<and>
    mse r = mse_of (map (\<lambda>i. Fin (y ! i)) [1..<length y]) (map (\<lambda>i. Fin (coef_a r ! (i - 1) + coef_b r ! (i - 1))) [1..<length y]) \<and>
    rmse r = rmse_of (map (\<lambda>i. Fin (y ! i)) [1..<length y]) (map (\<lambda>i. Fin (coef_a r ! (i - 1) + coef_b r ! (i - 1))) [1..<length y]) \<and>
    mape r = mape_of (map (\<lambda>i. Fin (y ! i)) [1..<length y]) (map (\<lambda>i. Fin (coef_a r ! (i - 1) + coef_b r ! (i - 1))) [1..<length y])"
proof -
  have act: "map Fin (drop (Suc 0) y) = map (\<lambda>i. Fin (y ! i)) [Suc 0..<length y]"
    using drop_1_nth [of y] by (simp add: comp_def)
  show ?thesis
    using assms
    by (simp add: des_brown_def slope_coeffs_def level_coeffs_def Let_def in_sample_forecast_map act
        split: prod.split)
qed

lemma des_brown_Inr_nonempty: "des_brown alpha y = Inr r \<Longrightarrow> y \<noteq> [] \<and> alpha \<noteq> 1"
  using des_brown_empty [of alpha] des_brown_alpha_one [of y] by (cases "y = []"; cases "alpha = 1") auto

lemma core_total: "y \<noteq> [] \<Longrightarrow> alpha \<noteq> 1 \<Longrightarrow> \<exists>r. des_brown alpha y = Inr r"
  using des_brown_result [of y alpha] by blast

lemma core_smoothing:
  assumes "des_brown alpha y = Inr r"
  shows "smooth_inv alpha y (length y) (S1 r, S2 r)"
proof -
  from assms have ne: "y \<noteq> []" "alpha \<noteq> 1" using des_brown_Inr_nonempty by blast+
  from des_brown_result [OF ne] assms have "(S1 r, S2 r) = smoothing alpha y" by auto
  with smoothing_inv [OF ne(1)] show ?thesis by simp
qed

lemma core_coeffs:
  assumes "des_brown alpha y = Inr r"
  shows "coef_a r = map (\<lambda>i. 2 * S1 r ! i - S2 r ! i) [0..<length y]"
    and "coef_b r = map (\<lambda>i. (alpha / (1 - alpha)) * (S1 r ! i - S2 r ! i)) [0..<length y]"
proof -
  from assms have ne: "y \<noteq> []" "alpha \<noteq> 1" using des_brown_Inr_nonempty by blast+
  from des_brown_result [OF ne] assms
  show "coef_a r = map (\<lambda>i. 2 * S1 r ! i - S2 r ! i) [0..<length y]"
    and "coef_b r = map (\<lambda>i. (alpha / (1 - alpha)) * (S1 r ! i - S2 r ! i)) [0..<length y]"
    by auto
qed

lemma core_forecast:
  assumes "des_brown alpha y = Inr r"
  shows "forecast r = NaN # map (\<lambda>i. Fin (coef_a r ! (i - 1) + coef_b r ! (i - 1))) [1..<length y]"
proof -
  from assms have ne: "y \<noteq> []" "alpha \<noteq> 1" using des_brown_Inr_nonempty by blast+
  from des_brown_result [OF ne] assms show ?thesis by auto
qed

lemma core_metrics:
  assumes "des_brown alpha y = Inr r"
  defines "actual \<equiv> map (\<lambda>i. Fin (y ! i)) [1..<length y]"
    and "pred \<equiv> map (\<lambda>i. Fin (coef_a r ! (i - 1) + coef_b r ! (i - 1))) [1..<length y]"
  shows "mae r = mae_of actual pred" and "mse r = mse_of actual pred"
    and "rmse r = rmse_of actual pred" and "mape r = mape_of actual pred"
proof -
  from assms(1) have ne: "y \<noteq> []" "alpha \<noteq> 1" using des_brown_Inr_nonempty by blast+
  from des_brown_result [OF ne] assms(1)
  show "mae r = mae_of actual pred" and "mse r = mse_of actual pred"
    and "rmse r = rmse_of actual pred" and "mape r = mape_of actual pred"
    unfolding actual_def pred_def by auto
qed

lemma pages_of_core:
  assumes "des_brown alpha (map snd df) = Inr r"
  shows "modeling_page_deploy2 alpha df = Inr (r, df_future_deploy2 (map fst df) (coef_a r) (coef_b r))"
    and "modeling_page_deploy1 alpha df = Inr (r, df_future_deploy1 (coef_a r) (coef_b r))"
  using assms by (simp_all add: modeling_page_deploy2_def modeling_page_deploy1_def)


lemma core_smoothing_df:
  assumes "des_brown alpha (map snd df) = Inr r"
  shows "length (S1 r) = length df" and "length (S2 r) = length df"
    and "S1 r ! 0 = snd (df ! 0)" and "S2 r ! 0 = snd (df ! 0)"
    and "\<And>t. 1 \<le> t \<Longrightarrow> t < length df \<Longrightarrow>
          S1 r ! t = alpha * snd (df ! t) + (1 - alpha) * S1 r ! (t - 1) \<and>
          S2 r ! t = alpha * S1 r ! t + (1 - alpha) * S2 r ! (t - 1)"
proof -
  from assms have ne: "df \<noteq> []" using des_brown_Inr_nonempty by fastforce
  note inv = core_smoothing [OF assms, unfolded smooth_inv_def fst_conv snd_conv length_map]
  from inv show "length (S1 r) = length df" and "length (S2 r) = length df" by simp_all
  from inv ne show "S1 r ! 0 = snd (df ! 0)" and "S2 r ! 0 = snd (df ! 0)" by simp_all
  fix t assume t: "1 \<le> t" "t < length df"
  with inv have "S1 r ! t = alpha * map snd df ! t + (1 - alpha) * S1 r ! (t - 1) \<and>
          S2 r ! t = alpha * S1 r ! t + (1 - alpha) * S2 r ! (t - 1)" by blast
  with t show "S1 r ! t = alpha * snd (df ! t) + (1 - alpha) * S1 r ! (t - 1) \<and>
          S2 r ! t = alpha * S1 r ! t + (1 - alpha) * S2 r ! (t - 1)" by simp
qed

lemma core_coeffs_nth:
  assumes "des_brown alpha (map snd df) = Inr r"
  shows "length (coef_a r) = length df" and "length (coef_b r) = length df"
    and "\<And>i. i < length df \<Longrightarrow> coef_a r ! i = 2 * S1 r ! i - S2 r ! i"
    and "\<And>i. i < length df \<Longrightarrow> coef_b r ! i = (alpha / (1 - alpha)) * (S1 r ! i - S2 r ! i)"
  using core_coeffs [OF assms] by simp_all

lemma core_forecast_nth:
  assumes "des_brown alpha (map snd df) = Inr r"
  shows "length (forecast r) = length df" and "forecast r ! 0 = NaN"
    and "\<And>i. 1 \<le> i \<Longrightarrow> i < length df \<Longrightarrow> forecast r ! i = Fin (coef_a r ! (i - 1) + coef_b r ! (i - 1))"
proof -
  from assms have ne: "df \<noteq> []" using des_brown_Inr_nonempty by fastforce
  note fc = core_forecast [OF assms, unfolded length_map]
  from ne have "0 < length df" by simp
  then show "length (forecast r) = length df" by (simp add: fc)
  show "forecast r ! 0 = NaN" by (simp add: fc)
  fix i assume i: "1 \<le> i" "i < length df"
  then obtain j where j: "i = Suc j" by (cases i) simp_all
  with i have "map (\<lambda>i. Fin (coef_a r ! (i - 1) + coef_b r ! (i - 1))) [1..<length df] ! j
      = Fin (coef_a r ! (i - 1) + coef_b r ! (i - 1))"
    by simp
  then show "forecast r ! i = Fin (coef_a r ! (i - 1) + coef_b r ! (i - 1))"
    unfolding fc j by simp
qed

lemma core_total_df:
  assumes "df \<noteq> []" and "0 < alpha" and "alpha < 1"
  shows "\<exists>r. des_brown alpha (map snd df) = Inr r"
  using assms core_total [of "map snd df" alpha] by simp

subsection \<open>The metrics on finite values, and where they stop being finite\<close>

lemma np_sum_Nil: "np_sum [] = Fin 0"
  by (simp add: np_sum_def)

lemma np_sum_Cons: "np_sum (x # xs) = np_add x (np_sum xs)"
  by (simp add: np_sum_def)

lemma np_sum_Fin: "np_sum (map (\<lambda>i. Fin (g i)) is) = Fin (sum_list (map g is))"
  by (induction "is") (simp_all add: np_sum_Nil np_sum_Cons)

lemma np_mean_Fin:
  "is \<noteq> [] \<Longrightarrow> np_mean (map (\<lambda>i. Fin (g i)) is) = Fin (sum_list (map g is) / real (length is))"
  by (simp add: np_mean_def np_sum_Fin)

lemma errors_of_Fin:
  "errors_of (map (\<lambda>i. Fin (u i)) is) (map (\<lambda>i. Fin (p i)) is) = map (\<lambda>i. Fin (u i - p i)) is"
  by (simp add: errors_of_def map2_map_map np_sub_def)

lemma mae_of_Fin:
  "is \<noteq> [] \<Longrightarrow> mae_of (map (\<lambda>i. Fin (u i)) is) (map (\<lambda>i. Fin (p i)) is)
     = Fin (sum_list (map (\<lambda>i. \<bar>u i - p i\<bar>) is) / real (length is))"
  using np_mean_Fin [of "is" "\<lambda>i. \<bar>u i - p i\<bar>"]
  by (simp add: mae_of_def errors_of_Fin comp_def)

lemma mse_of_Fin:
  "is \<noteq> [] \<Longrightarrow> mse_of (map (\<lambda>i. Fin (u i)) is) (map (\<lambda>i. Fin (p i)) is)
     = Fin (sum_list (map (\<lambda>i. (u i - p i) * (u i - p i)) is) / real (length is))"
  using np_mean_Fin [of "is" "\<lambda>i. (u i - p i) * (u i - p i)"]
  by (simp add: mse_of_def errors_of_Fin comp_def)

lemma sum_list_nonneg_map: "(\<And>i. 0 \<le> g i) \<Longrightarrow> 0 \<le> sum_list (map g is)" for g :: "'a \<Rightarrow> real"
  by (induction "is") simp_all

lemma rmse_of_Fin:
  "is \<noteq> [] \<Longrightarrow> rmse_of (map (\<lambda>i. Fin (u i)) is) (map (\<lambda>i. Fin (p i)) is)
     = Fin (sqrt (sum_list (map (\<lambda>i. (u i - p i) * (u i - p i)) is) / real (length is)))"
proof -
  assume ne: "is \<noteq> []"
  have "0 \<le> sum_list (map (\<lambda>i. (u i - p i) * (u i - p i)) is)"
    by (rule sum_list_nonneg_map) simp
  then have "0 \<le> sum_list (map (\<lambda>i. (u i - p i) * (u i - p i)) is) / real (length is)"
    by simp
  then show ?thesis
    by (simp add: rmse_of_def mse_of_Fin [OF ne] not_less [symmetric])
qed

text \<open>One term of the percentage error: finite when the actual value is not zero,
  \<open>0 / 0\<close> when the error is zero too, an infinity otherwise.\<close>

lemma ape_term:
  "np_abs (np_div (Fin (u - p)) (Fin u)) =
     (if u = 0 then (if p = 0 then NaN else PInf) else Fin \<bar>(u - p) / u\<bar>)"
  by (simp add: signed_inf_def)

lemma mape_of_terms:
  "mape_of (map (\<lambda>i. Fin (u i)) is) (map (\<lambda>i. Fin (p i)) is)
     = np_mul (np_mean (map (\<lambda>i. if u i = 0 then (if p i = 0 then NaN else PInf)
                                   else Fin \<bar>(u i - p i) / u i\<bar>) is)) (Fin 100)"
proof -
  have "map np_abs (map2 np_div (map (\<lambda>i. Fin (u i - p i)) is) (map (\<lambda>i. Fin (u i)) is))
      = map (\<lambda>i. np_abs (np_div (Fin (u i - p i)) (Fin (u i)))) is"
    by (simp add: map2_map_map comp_def)
  then show ?thesis
    unfolding mape_of_def errors_of_Fin by (simp only: ape_term)
qed

lemma mape_of_Fin:
  assumes "is \<noteq> []" and "\<And>i. i \<in> set is \<Longrightarrow> u i \<noteq> 0"
  shows "mape_of (map (\<lambda>i. Fin (u i)) is) (map (\<lambda>i. Fin (p i)) is)
     = Fin (sum_list (map (\<lambda>i. \<bar>(u i - p i) / u i\<bar>) is) / real (length is) * 100)"
proof -
  have "map (\<lambda>i. if u i = 0 then (if p i = 0 then NaN else PInf) else Fin \<bar>(u i - p i) / u i\<bar>) is
      = map (\<lambda>i. Fin \<bar>(u i - p i) / u i\<bar>) is"
    using assms(2) by (intro map_cong) simp_all
  then show ?thesis
    unfolding mape_of_terms
    by (simp only: np_mean_Fin [OF assms(1)] np_mul.simps)
qed

lemma np_add_NaN_right: "np_add x NaN = NaN"
  by (cases x) simp_all

lemma np_sum_NaN: "NaN \<in> set xs \<Longrightarrow> np_sum xs = NaN"
  by (induction xs) (auto simp: np_sum_Cons np_add_NaN_right)

lemma np_sum_Fin_or_PInf:
  "(\<And>x. x \<in> set xs \<Longrightarrow> x = PInf \<or> (\<exists>v. x = Fin v)) \<Longrightarrow>
     np_sum xs = PInf \<or> (\<exists>v. np_sum xs = Fin v)"
proof (induction xs)
  case Nil
  show ?case by (simp add: np_sum_Nil)
next
  case (Cons x xs)
  then have "np_sum xs = PInf \<or> (\<exists>v. np_sum xs = Fin v)" by simp
  moreover from Cons.prems have "x = PInf \<or> (\<exists>v. x = Fin v)" by simp
  ultimately show ?case by (auto simp: np_sum_Cons)
qed

lemma np_sum_PInf:
  "PInf \<in> set xs \<Longrightarrow> (\<And>x. x \<in> set xs \<Longrightarrow> x = PInf \<or> (\<exists>v. x = Fin v)) \<Longrightarrow> np_sum xs = PInf"
proof (induction xs)
  case Nil
  then show ?case by simp
next
  case (Cons x xs)
  from Cons.prems(2) have rest: "np_sum xs = PInf \<or> (\<exists>v. np_sum xs = Fin v)"
    by (intro np_sum_Fin_or_PInf) simp
  from Cons.prems(2) have hd: "x = PInf \<or> (\<exists>v. x = Fin v)" by simp
  show ?case
  proof (cases "x = PInf")
    case True
    with rest show ?thesis by (auto simp: np_sum_Cons)
  next
    case False
    with Cons.prems(1) have "PInf \<in> set xs" by simp
    with Cons.IH Cons.prems(2) have "np_sum xs = PInf" by simp
    with hd False show ?thesis by (auto simp: np_sum_Cons)
  qed
qed

lemma mape_of_NaN:
  assumes "i \<in> set is" and "u i = 0" and "p i = 0"
  shows "mape_of (map (\<lambda>i. Fin (u i)) is) (map (\<lambda>i. Fin (p i)) is) = NaN"
proof -
  let ?t = "\<lambda>i. if u i = 0 then (if p i = 0 then NaN else PInf) else Fin \<bar>(u i - p i) / u i\<bar>"
  from assms have "?t i = NaN" by simp
  moreover from assms(1) have "?t i \<in> set (map ?t is)" unfolding set_map by (rule imageI)
  ultimately have "NaN \<in> set (map ?t is)" by (simp only:)
  then have "np_sum (map ?t is) = NaN" by (rule np_sum_NaN)
  then show ?thesis
    unfolding mape_of_terms np_mean_def by simp
qed

lemma mape_of_PInf:
  assumes "i \<in> set is" and "u i = 0" and "\<And>j. j \<in> set is \<Longrightarrow> u j = 0 \<Longrightarrow> p j \<noteq> 0"
  shows "mape_of (map (\<lambda>i. Fin (u i)) is) (map (\<lambda>i. Fin (p i)) is) = PInf"
proof -
  let ?t = "\<lambda>i. if u i = 0 then (if p i = 0 then NaN else PInf) else Fin \<bar>(u i - p i) / u i\<bar>"
  from assms have "?t i = PInf" by simp
  moreover from assms(1) have "?t i \<in> set (map ?t is)" unfolding set_map by (rule imageI)
  ultimately have "PInf \<in> set (map ?t is)" by (simp only:)
  moreover have "x = PInf \<or> (\<exists>v. x = Fin v)" if "x \<in> set (map ?t is)" for x
    using that assms(3) by auto
  ultimately have "np_sum (map ?t is) = PInf" by (rule np_sum_PInf)
  then show ?thesis
    unfolding mape_of_terms np_mean_def by (simp add: signed_inf_def)
qed

lemma core_metrics_df:
  assumes "des_brown alpha (map snd df) = Inr r"
  shows "mae r = mae_of (map (\<lambda>i. Fin (snd (df ! i))) [1..<length df])
                   (map (\<lambda>i. Fin (coef_a r ! (i - 1) + coef_b r ! (i - 1))) [1..<length df])"
    and "mse r = mse_of (map (\<lambda>i. Fin (snd (df ! i))) [1..<length df])
                   (map (\<lambda>i. Fin (coef_a r ! (i - 1) + coef_b r ! (i - 1))) [1..<length df])"
    and "rmse r = rmse_of (map (\<lambda>i. Fin (snd (df ! i))) [1..<length df])
                   (map (\<lambda>i. Fin (coef_a r ! (i - 1) + coef_b r ! (i - 1))) [1..<length df])"
    and "mape r = mape_of (map (\<lambda>i. Fin (snd (df ! i))) [1..<length df])
                   (map (\<lambda>i. Fin (coef_a r ! (i - 1) + coef_b r ! (i - 1))) [1..<length df])"
proof -
  have act: "map (\<lambda>i. Fin (map snd df ! i)) [1..<length (map snd df)]
           = map (\<lambda>i. Fin (snd (df ! i))) [1..<length df]"
    by (rule map_cong) simp_all
  note m = core_metrics [OF assms, unfolded act, unfolded length_map]
  show "mae r = mae_of (map (\<lambda>i. Fin (snd (df ! i))) [1..<length df])
                   (map (\<lambda>i. Fin (coef_a r ! (i - 1) + coef_b r ! (i - 1))) [1..<length df])"
    by (rule m(1))
  show "mse r = mse_of (map (\<lambda>i. Fin (snd (df ! i))) [1..<length df])
                   (map (\<lambda>i. Fin (coef_a r ! (i - 1) + coef_b r ! (i - 1))) [1..<length df])"
    by (rule m(2))
  show "rmse r = rmse_of (map (\<lambda>i. Fin (snd (df ! i))) [1..<length df])
                   (map (\<lambda>i. Fin (coef_a r ! (i - 1) + coef_b r ! (i - 1))) [1..<length df])"
    by (rule m(3))
  show "mape r = mape_of (map (\<lambda>i. Fin (snd (df ! i))) [1..<length df])
                   (map (\<lambda>i. Fin (coef_a r ! (i - 1) + coef_b r ! (i - 1))) [1..<length df])"
    by (rule m(4))
qed

lemma aligned_indices: "2 \<le> n \<Longrightarrow> [1..<n] \<noteq> [] \<and> length [1..<n] = n - 1"
  by simp

subsection \<open>The rows of the future table\<close>

lemma upto_as_map: "[i..i + int n - 1] = map (\<lambda>k. i + int k) [0..<n]"
proof (induction n)
  case 0
  show ?case by simp
next
  case (Suc n)
  have "[i..i + int (Suc n) - 1] = [i..i + int n]" by simp
  also have "\<dots> = [i..i + int n - 1] @ [i + int n]" by (rule upto_rec2) simp
  finally show ?case by (simp add: Suc.IH)
qed

lemma np_arange_map: "np_arange start (start + int n) = map (\<lambda>k. start + int k) [0..<n]"
  unfolding np_arange_def by (rule upto_as_map)

lemma steps_map: "map f [1..<n + 1] = map (\<lambda>k. f (Suc k)) [0..<n]"
proof -
  have "[1..<n + 1] = map Suc [0..<n]" by (simp add: map_Suc_upt)
  then show ?thesis by (simp add: comp_def)
qed

lemma df_future_from_map:
  "df_future_from start_year n_forecast a b =
     map (\<lambda>k. (start_year + int k, last a + last b * real (Suc k))) [0..<n_forecast]"
  unfolding df_future_from_def Let_def np_arange_map steps_map
  by (simp add: zip_map_map zip_same_conv_map)

lemma df_future_deploy1_map:
  "df_future_deploy1 a b = map (\<lambda>k. (2022 + int k, last a + last b * real (Suc k))) [0..<5]"
  by (simp add: df_future_deploy1_def df_future_from_map)

lemma df_future_deploy2_map:
  "df_future_deploy2 tahun a b =
     map (\<lambda>k. (last tahun + 1 + int k, last a + last b * real (Suc k))) [0..<5]"
proof -
  have y: "np_arange (last tahun + 1) (last tahun + 6) = map (\<lambda>k. last tahun + 1 + int k) [0..<5]"
    using np_arange_map [of "last tahun + 1" 5] by (simp add: add.assoc)
  have f: "map (\<lambda>m. last a + last b * real m) [1..<6] = map (\<lambda>k. last a + last b * real (Suc k)) [0..<5]"
    using steps_map [of "\<lambda>m. last a + last b * real m" 5] by simp
  show ?thesis
    unfolding df_future_deploy2_def Let_def y f by (simp add: zip_map_map zip_same_conv_map)
qed

lemma table_rows:
  assumes "tbl = map (\<lambda>k. (s + int k, c + d * real (Suc k))) [0..<H]"
  shows "length tbl = H"
    and "\<And>m. 1 \<le> m \<Longrightarrow> m \<le> H \<Longrightarrow> tbl ! (m - 1) = (s + (int m - 1), c + d * real m)"
    and "\<And>m. 1 \<le> m \<Longrightarrow> m < H \<Longrightarrow> fst (tbl ! m) = fst (tbl ! (m - 1)) + 1"
proof -
  show "length tbl = H" by (simp add: assms)
  show "tbl ! (m - 1) = (s + (int m - 1), c + d * real m)" if "1 \<le> m" "m \<le> H" for m
  proof -
    from that obtain k where k: "m = Suc k" "k < H" by (cases m) simp_all
    then show ?thesis by (simp add: assms)
  qed
  show "fst (tbl ! m) = fst (tbl ! (m - 1)) + 1" if "1 \<le> m" "m < H" for m
  proof -
    from that obtain k where k: "m = Suc k" "k < H" "Suc k < H" by (cases m) simp_all
    then show ?thesis by (simp add: assms)
  qed
qed

subsection \<open>The pages on small series\<close>

lemmas run_defs = des_brown_def smoothing_def smooth_step_def
  level_coeffs_def slope_coeffs_def in_sample_forecast_def errors_of_def mae_of_def mse_of_def
  rmse_of_def mape_of_def np_mean_def np_sum_def np_sub_def signed_inf_def Let_def

lemma worked_example_valid:
  "2 \<le> length worked_example" "worked_example \<noteq> []" "(0::real) < 4 / 5" "(4 / 5 :: real) < 1"
  by (simp_all add: worked_example_def)

lemma zero_actual_core:
  "des_brown (4 / 5) (map snd zero_actual_example) =
     Inr \<lparr>S1 = [3 / 5, 3 / 25], S2 = [3 / 5, 27 / 125],
          coef_a = [3 / 5, 3 / 125], coef_b = [0, - (48 / 125)],
          forecast = [NaN, Fin (3 / 5)],
          mae = Fin (3 / 5), mse = Fin (9 / 25), rmse = Fin (3 / 5), mape = PInf\<rparr>"
  by (simp add: zero_actual_example_def run_defs)

lemma range_1_6: "[Suc 0..<6] = [1, 2, 3, 4, 5]"
  by (simp add: upt_rec)

lemma worked_example_core:
  "des_brown (4 / 5) (map snd worked_example) =
     Inr \<lparr>S1 = [3 / 5, 77 / 125, 372 / 625, 1947 / 3125],
          S2 = [3 / 5, 383 / 625, 1871 / 3125, 9659 / 15625],
          coef_a = [3 / 5, 387 / 625, 1849 / 3125, 9811 / 15625],
          coef_b = [0, 8 / 625, - (44 / 3125), 304 / 15625],
          forecast = [NaN, Fin (3 / 5), Fin (79 / 125), Fin (361 / 625)],
          mae = Fin (143 / 3750), mse = Fin (15343 / 9375000),
          rmse = Fin (sqrt (15343 / 9375000)),
          mape = Fin (2150356 / 345681)\<rparr>"
  by (simp add: worked_example_def run_defs)

lemma range_1_5: "[Suc 0..<5] = [1, 2, 3, 4]"
  by (simp add: upt_rec)

lemma single_row_core:
  "alpha \<noteq> 1 \<Longrightarrow> des_brown alpha (map snd [(p, v)]) =
     Inr \<lparr>S1 = [v], S2 = [v], coef_a = [v], coef_b = [0], forecast = [NaN],
          mae = NaN, mse = NaN, rmse = NaN, mape = NaN\<rparr>"
  by (simp add: run_defs)

lemma alpha_slider_range: "alpha_slider alpha \<Longrightarrow> 0 < alpha \<and> alpha < 1"
  by (simp add: alpha_slider_def)

lemma two_year_core:
  "des_brown (4 / 5) (map snd two_year_example) =
     Inr \<lparr>S1 = [3 / 5, 77 / 125], S2 = [3 / 5, 383 / 625],
          coef_a = [3 / 5, 387 / 625], coef_b = [0, 8 / 625],
          forecast = [NaN, Fin (3 / 5)],
          mae = Fin (1 / 50), mse = Fin (1 / 2500), rmse = Fin (1 / 50), mape = Fin (100 / 31)\<rparr>"
  by (simp add: two_year_example_def run_defs)

lemma two_year_core_alpha_above:
  "des_brown (3 / 2) (map snd two_year_example) =
     Inr \<lparr>S1 = [3 / 5, 63 / 100], S2 = [3 / 5, 129 / 200],
          coef_a = [3 / 5, 123 / 200], coef_b = [0, 9 / 200],
          forecast = [NaN, Fin (3 / 5)],
          mae = Fin (1 / 50), mse = Fin (1 / 2500), rmse = Fin (1 / 50), mape = Fin (100 / 31)\<rparr>"
  by (simp add: two_year_example_def run_defs)

lemma two_year_core_alpha_zero:
  "des_brown 0 (map snd two_year_example) =
     Inr \<lparr>S1 = [3 / 5, 3 / 5], S2 = [3 / 5, 3 / 5],
          coef_a = [3 / 5, 3 / 5], coef_b = [0, 0],
          forecast = [NaN, Fin (3 / 5)],
          mae = Fin (1 / 50), mse = Fin (1 / 2500), rmse = Fin (1 / 50), mape = Fin (100 / 31)\<rparr>"
  by (simp add: two_year_example_def run_defs)

lemma two_year_core_alpha_below:
  "des_brown (- (1 / 10)) (map snd two_year_example) =
     Inr \<lparr>S1 = [3 / 5, 299 / 500], S2 = [3 / 5, 3001 / 5000],
          coef_a = [3 / 5, 2979 / 5000], coef_b = [0, 1 / 5000],
          forecast = [NaN, Fin (3 / 5)],
          mae = Fin (1 / 50), mse = Fin (1 / 2500), rmse = Fin (1 / 50), mape = Fin (100 / 31)\<rparr>"
  by (simp add: two_year_example_def run_defs)

lemmas table_defs = df_future_deploy2_def df_future_deploy1_def df_future_from_def np_arange_def
  upto.simps range_1_6 range_1_5 Let_def

subsection \<open>One series in binary64\<close>





















section \<open>The claims\<close>

text \<open>
  C1. For a series of at least two observations and \<open>0 < alpha < 1\<close>, both pages
  return, with the same smoothed lists and coefficients, and these satisfy, for
  \<open>t = 1 .. n-1\<close> and \<open>i = 0 .. n-1\<close>:
  \<open>S1[t] = alpha * y[t] + (1 - alpha) * S1[t-1]\<close>,
  \<open>S2[t] = alpha * S1[t] + (1 - alpha) * S2[t-1]\<close>,
  \<open>a[i] = 2 * S1[i] - S2[i]\<close> and
  \<open>b[i] = (alpha / (1 - alpha)) * (S1[i] - S2[i])\<close>.
\<close>

theorem des_recurrence_and_coefficients:
  assumes "2 \<le> length df" and "0 < alpha" and "alpha < 1"
  shows "\<exists>r f1 f2. modeling_page_deploy1 alpha df = Inr (r, f1) \<and>
           modeling_page_deploy2 alpha df = Inr (r, f2) \<and>
           length (S1 r) = length df \<and> length (S2 r) = length df \<and>
           length (coef_a r) = length df \<and> length (coef_b r) = length df \<and>
           (\<forall>t. 1 \<le> t \<and> t < length df \<longrightarrow>
              S1 r ! t = alpha * snd (df ! t) + (1 - alpha) * S1 r ! (t - 1) \<and>
              S2 r ! t = alpha * S1 r ! t + (1 - alpha) * S2 r ! (t - 1)) \<and>
           (\<forall>i < length df.
              coef_a r ! i = 2 * S1 r ! i - S2 r ! i \<and>
              coef_b r ! i = (alpha / (1 - alpha)) * (S1 r ! i - S2 r ! i))"
proof -
  from assms have "df \<noteq> []" by auto
  from core_total_df [OF this assms(2,3)] obtain r where r: "des_brown alpha (map snd df) = Inr r" ..
  show ?thesis
    using pages_of_core [OF r] core_smoothing_df [OF r] core_coeffs_nth [OF r] by blast
qed

theorem des_recurrence_and_coefficients_witness:
  "2 \<le> length worked_example \<and> (0::real) < 4 / 5 \<and> (4 / 5 :: real) < 1 \<and>
   (\<exists>r f1 f2. modeling_page_deploy1 (4 / 5) worked_example = Inr (r, f1) \<and>
           modeling_page_deploy2 (4 / 5) worked_example = Inr (r, f2) \<and>
           length (S1 r) = length worked_example \<and> length (S2 r) = length worked_example \<and>
           length (coef_a r) = length worked_example \<and> length (coef_b r) = length worked_example \<and>
           (\<forall>t. 1 \<le> t \<and> t < length worked_example \<longrightarrow>
              S1 r ! t = 4 / 5 * snd (worked_example ! t) + (1 - 4 / 5) * S1 r ! (t - 1) \<and>
              S2 r ! t = 4 / 5 * S1 r ! t + (1 - 4 / 5) * S2 r ! (t - 1)) \<and>
           (\<forall>i < length worked_example.
              coef_a r ! i = 2 * S1 r ! i - S2 r ! i \<and>
              coef_b r ! i = (4 / 5 / (1 - 4 / 5)) * (S1 r ! i - S2 r ! i)))"
  using worked_example_valid(1,3,4)
    des_recurrence_and_coefficients [OF worked_example_valid(1,3,4)]
  by (intro conjI) assumption+

text \<open>
  C2. For a non-empty series and \<open>0 < alpha < 1\<close>, both smoothing passes start from the
  first observation: \<open>S1[0] = y[0]\<close> and \<open>S2[0] = y[0]\<close>.
\<close>

theorem des_seed:
  assumes "df \<noteq> []" and "0 < alpha" and "alpha < 1"
  shows "\<exists>r f1 f2. modeling_page_deploy1 alpha df = Inr (r, f1) \<and>
           modeling_page_deploy2 alpha df = Inr (r, f2) \<and>
           S1 r ! 0 = snd (df ! 0) \<and> S2 r ! 0 = snd (df ! 0)"
proof -
  from core_total_df [OF assms] obtain r where r: "des_brown alpha (map snd df) = Inr r" ..
  show ?thesis
    using pages_of_core [OF r] core_smoothing_df(3,4) [OF r] by blast
qed

theorem des_seed_witness:
  "worked_example \<noteq> [] \<and> (0::real) < 4 / 5 \<and> (4 / 5 :: real) < 1 \<and>
   (\<exists>r f1 f2. modeling_page_deploy1 (4 / 5) worked_example = Inr (r, f1) \<and>
           modeling_page_deploy2 (4 / 5) worked_example = Inr (r, f2) \<and>
           S1 r ! 0 = snd (worked_example ! 0) \<and> S2 r ! 0 = snd (worked_example ! 0))"
  using worked_example_valid(2,3,4) des_seed [OF worked_example_valid(2,3,4)]
  by (intro conjI) assumption+

text \<open>
  C3. For a series of at least two observations and \<open>0 < alpha < 1\<close>, the in-sample
  forecast has one entry per observation; the entry at index 0 is \<^verbatim>\<open>nan\<close>, not a
  number; and for \<open>i = 1 .. n-1\<close> the entry is \<open>a[i-1] + b[i-1]\<close>.
\<close>

theorem in_sample_forecast_shape:
  assumes "2 \<le> length df" and "0 < alpha" and "alpha < 1"
  shows "\<exists>r f1 f2. modeling_page_deploy1 alpha df = Inr (r, f1) \<and>
           modeling_page_deploy2 alpha df = Inr (r, f2) \<and>
           length (forecast r) = length df \<and>
           forecast r ! 0 = NaN \<and> (\<forall>x. forecast r ! 0 \<noteq> Fin x) \<and>
           (\<forall>i. 1 \<le> i \<and> i < length df \<longrightarrow>
              forecast r ! i = Fin (coef_a r ! (i - 1) + coef_b r ! (i - 1)))"
proof -
  from assms have "df \<noteq> []" by auto
  from core_total_df [OF this assms(2,3)] obtain r where r: "des_brown alpha (map snd df) = Inr r" ..
  from core_forecast_nth(2) [OF r] have "\<forall>x. forecast r ! 0 \<noteq> Fin x" by simp
  then show ?thesis
    using pages_of_core [OF r] core_forecast_nth [OF r] by blast
qed

theorem in_sample_forecast_shape_witness:
  "2 \<le> length worked_example \<and> (0::real) < 4 / 5 \<and> (4 / 5 :: real) < 1 \<and>
   (\<exists>r f1 f2. modeling_page_deploy1 (4 / 5) worked_example = Inr (r, f1) \<and>
           modeling_page_deploy2 (4 / 5) worked_example = Inr (r, f2) \<and>
           length (forecast r) = length worked_example \<and>
           forecast r ! 0 = NaN \<and> (\<forall>x. forecast r ! 0 \<noteq> Fin x) \<and>
           (\<forall>i. 1 \<le> i \<and> i < length worked_example \<longrightarrow>
              forecast r ! i = Fin (coef_a r ! (i - 1) + coef_b r ! (i - 1))))"
  using worked_example_valid(1,3,4) in_sample_forecast_shape [OF worked_example_valid(1,3,4)]
  by (intro conjI) assumption+

text \<open>
  C4, as the code has it. The horizon is not a parameter of the pages: both project
  five steps, and \<^verbatim>\<open>deploy1.py\<close> starts at the constant 2022. For a series of at
  least two observations and \<open>0 < alpha < 1\<close>, the future table has exactly 5 rows;
  the value at step \<open>m = 1 .. 5\<close> is \<open>a[n-1] + b[n-1] * m\<close>; the years go up by one,
  \<open>last observed year + m\<close> in \<^verbatim>\<open>deploy2.py\<close> and \<open>2022 + (m - 1)\<close> in
  \<^verbatim>\<open>deploy1.py\<close>.
\<close>

theorem future_table_shape:
  assumes "2 \<le> length df" and "0 < alpha" and "alpha < 1"
  shows "\<exists>r f1 f2.
     modeling_page_deploy1 alpha df = Inr (r, f1) \<and>
     modeling_page_deploy2 alpha df = Inr (r, f2) \<and>
     length f2 = 5 \<and>
     (\<forall>m. 1 \<le> m \<and> m \<le> 5 \<longrightarrow>
        f2 ! (m - 1) = (fst (last df) + int m,
                        coef_a r ! (length df - 1) + coef_b r ! (length df - 1) * real m)) \<and>
     (\<forall>m. 1 \<le> m \<and> m < 5 \<longrightarrow> fst (f2 ! m) = fst (f2 ! (m - 1)) + 1) \<and>
     length f1 = 5 \<and>
     (\<forall>m. 1 \<le> m \<and> m \<le> 5 \<longrightarrow>
        f1 ! (m - 1) = (2022 + (int m - 1),
                        coef_a r ! (length df - 1) + coef_b r ! (length df - 1) * real m)) \<and>
     (\<forall>m. 1 \<le> m \<and> m < 5 \<longrightarrow> fst (f1 ! m) = fst (f1 ! (m - 1)) + 1)"
proof -
  from assms have ne: "df \<noteq> []" by auto
  from core_total_df [OF ne assms(2,3)] obtain r where r: "des_brown alpha (map snd df) = Inr r" ..
  note p = pages_of_core [OF r]
  from ne core_coeffs_nth(1,2) [OF r] have "coef_a r \<noteq> []" "coef_b r \<noteq> []" by auto
  then have la: "last (coef_a r) = coef_a r ! (length df - 1)"
    and lb: "last (coef_b r) = coef_b r ! (length df - 1)"
    using core_coeffs_nth(1,2) [OF r] by (simp_all add: last_conv_nth)
  from ne have lt: "last (map fst df) = fst (last df)" by (rule last_map)
  let ?f2 = "df_future_deploy2 (map fst df) (coef_a r) (coef_b r)"
  let ?f1 = "df_future_deploy1 (coef_a r) (coef_b r)"
  note t2 = table_rows [OF df_future_deploy2_map [of "map fst df" "coef_a r" "coef_b r"], unfolded la lb lt]
  note t1 = table_rows [OF df_future_deploy1_map [of "coef_a r" "coef_b r"], unfolded la lb]
  have "length ?f2 = 5" by (rule t2(1))
  moreover have "\<forall>m. 1 \<le> m \<and> m \<le> 5 \<longrightarrow>
        ?f2 ! (m - 1) = (fst (last df) + int m,
                          coef_a r ! (length df - 1) + coef_b r ! (length df - 1) * real m)"
    using t2(2) by simp
  moreover have "\<forall>m. 1 \<le> m \<and> m < 5 \<longrightarrow> fst (?f2 ! m) = fst (?f2 ! (m - 1)) + 1"
    using t2(3) by simp
  moreover have "length ?f1 = 5" by (rule t1(1))
  moreover have "\<forall>m. 1 \<le> m \<and> m \<le> 5 \<longrightarrow>
        ?f1 ! (m - 1) = (2022 + (int m - 1),
                          coef_a r ! (length df - 1) + coef_b r ! (length df - 1) * real m)"
    using t1(2) by simp
  moreover have "\<forall>m. 1 \<le> m \<and> m < 5 \<longrightarrow> fst (?f1 ! m) = fst (?f1 ! (m - 1)) + 1"
    using t1(3) by simp
  ultimately show ?thesis
    using p by blast
qed

theorem future_table_shape_witness:
  "2 \<le> length worked_example \<and> (0::real) < 4 / 5 \<and> (4 / 5 :: real) < 1 \<and>
   (\<exists>r f1 f2.
     modeling_page_deploy1 (4 / 5) worked_example = Inr (r, f1) \<and>
     modeling_page_deploy2 (4 / 5) worked_example = Inr (r, f2) \<and>
     length f2 = 5 \<and> length f1 = 5 \<and>
     f2 ! (3 - 1) = (2021 + 3, coef_a r ! 3 + coef_b r ! 3 * 3) \<and>
     f1 ! (3 - 1) = (2022 + (3 - 1), coef_a r ! 3 + coef_b r ! 3 * 3))"
proof -
  note h = worked_example_valid(1,3,4)
  have len: "length worked_example = 4" and lst: "fst (last worked_example) = 2021"
    by (simp_all add: worked_example_def)
  from future_table_shape [OF h] obtain r f1 f2 where
    p1: "modeling_page_deploy1 (4 / 5) worked_example = Inr (r, f1)" and
    p2: "modeling_page_deploy2 (4 / 5) worked_example = Inr (r, f2)" and
    l2: "length f2 = 5" and
    v2: "\<forall>m. 1 \<le> m \<and> m \<le> 5 \<longrightarrow>
        f2 ! (m - 1) = (fst (last worked_example) + int m,
                        coef_a r ! (length worked_example - 1) + coef_b r ! (length worked_example - 1) * real m)" and
    b: "length f1 = 5" and
    c: "\<forall>m. 1 \<le> m \<and> m \<le> 5 \<longrightarrow>
        f1 ! (m - 1) = (2022 + (int m - 1),
                        coef_a r ! (length worked_example - 1) + coef_b r ! (length worked_example - 1) * real m)"
    by blast
  from v2 [rule_format, of 3] have a: "f2 ! (3 - 1) = (2021 + 3, coef_a r ! 3 + coef_b r ! 3 * 3)"
    by (simp add: len lst)
  from c [rule_format, of 3] have d: "f1 ! (3 - 1) = (2022 + (3 - 1), coef_a r ! 3 + coef_b r ! 3 * 3)"
    by (simp add: len)
  from h p1 p2 l2 a b d show ?thesis by blast
qed

theorem future_table_horizon_counterexample:
  "map_sum id snd (modeling_page_deploy2 (4 / 5) [(2018, 3 / 5), (2019, 31 / 50)]) =
     Inr [(2020, 79 / 125), (2021, 403 / 625), (2022, 411 / 625), (2023, 419 / 625), (2024, 427 / 625)] \<and>
   map_sum id snd (modeling_page_deploy1 (4 / 5) [(2018, 3 / 5), (2019, 31 / 50)]) =
     Inr [(2022, 79 / 125), (2023, 403 / 625), (2024, 411 / 625), (2025, 419 / 625), (2026, 427 / 625)]"
proof -
  note p = pages_of_core [OF two_year_core, unfolded two_year_example_def]
  show ?thesis
    unfolding p by (simp add: table_defs)
qed

text \<open>
  C5. On the series (2018, 0.60), (2019, 0.62), (2020, 0.59), (2021, 0.63) with
  \<open>alpha = 0.8\<close>: \<open>S1[1] = 0.616\<close>, \<open>S2[1] = 0.6128\<close>, \<open>a[1] = 0.6192\<close>,
  \<open>b[1] = 0.0128\<close> and \<open>forecast[2] = a[1] + b[1] = 0.632\<close>. Over the reals the values
  are exact, hence within \<open>1e-9\<close> of the stated decimals.
\<close>

theorem worked_example_values:
  "\<exists>r f1 f2.
     modeling_page_deploy1 (8 / 10) [(2018, 60 / 100), (2019, 62 / 100), (2020, 59 / 100), (2021, 63 / 100)] = Inr (r, f1) \<and>
     modeling_page_deploy2 (8 / 10) [(2018, 60 / 100), (2019, 62 / 100), (2020, 59 / 100), (2021, 63 / 100)] = Inr (r, f2) \<and>
     S1 r ! 0 = 60 / 100 \<and> S2 r ! 0 = 60 / 100 \<and>
     S1 r ! 1 = 616 / 1000 \<and> \<bar>S1 r ! 1 - 616 / 1000\<bar> \<le> 1 / 10 ^ 9 \<and>
     S2 r ! 1 = 6128 / 10000 \<and> \<bar>S2 r ! 1 - 6128 / 10000\<bar> \<le> 1 / 10 ^ 9 \<and>
     coef_a r ! 1 = 6192 / 10000 \<and> \<bar>coef_a r ! 1 - 6192 / 10000\<bar> \<le> 1 / 10 ^ 9 \<and>
     coef_b r ! 1 = 128 / 10000 \<and> \<bar>coef_b r ! 1 - 128 / 10000\<bar> \<le> 1 / 10 ^ 9 \<and>
     forecast r ! 2 = Fin (coef_a r ! 1 + coef_b r ! 1) \<and>
     forecast r ! 2 = Fin (632 / 1000) \<and>
     \<bar>coef_a r ! 1 + coef_b r ! 1 - 632 / 1000\<bar> \<le> 1 / 10 ^ 9"
proof -
  have ex: "[(2018, 60 / 100), (2019, 62 / 100), (2020, 59 / 100), (2021, 63 / 100)] = worked_example"
    by (simp add: worked_example_def)
  have a: "(8 / 10 :: real) = 4 / 5" by simp
  note p = pages_of_core [OF worked_example_core]
  show ?thesis
    unfolding ex a
    by (rule exI, rule exI, rule exI, intro conjI, rule p(2), rule p(1)) simp_all
qed

text \<open>
  C6, as the code has it. The pages raise nothing on a zero actual value: numpy divides
  and goes on. For a series of at least two observations and \<open>0 < alpha < 1\<close> both
  pages return. If no \<open>y[i]\<close> with \<open>i = 1 .. n-1\<close> is zero, MAPE is the mean of
  \<open>|(y[i] - forecast[i]) / y[i]|\<close> times 100. If some such \<open>y[i]\<close> is zero, MAPE
  is not finite: \<^verbatim>\<open>nan\<close> when the forecast at such an index is zero as well,
  \<^verbatim>\<open>inf\<close> otherwise.
\<close>

theorem mape_zero_actual_not_raised:
  assumes "2 \<le> length df" and "0 < alpha" and "alpha < 1"
  shows "\<exists>r f1 f2.
           modeling_page_deploy1 alpha df = Inr (r, f1) \<and>
           modeling_page_deploy2 alpha df = Inr (r, f2) \<and>
           ((\<forall>i. 1 \<le> i \<and> i < length df \<longrightarrow> snd (df ! i) \<noteq> 0) \<longrightarrow>
              mape r = Fin (sum_list (map (\<lambda>i. \<bar>(snd (df ! i) - (coef_a r ! (i - 1) + coef_b r ! (i - 1)))
                                                  / snd (df ! i)\<bar>) [1..<length df])
                            / real (length df - 1) * 100)) \<and>
           ((\<exists>i. 1 \<le> i \<and> i < length df \<and> snd (df ! i) = 0 \<and>
                 coef_a r ! (i - 1) + coef_b r ! (i - 1) = 0) \<longrightarrow> mape r = NaN) \<and>
           ((\<exists>i. 1 \<le> i \<and> i < length df \<and> snd (df ! i) = 0) \<and>
            (\<forall>i. 1 \<le> i \<and> i < length df \<and> snd (df ! i) = 0 \<longrightarrow>
                 coef_a r ! (i - 1) + coef_b r ! (i - 1) \<noteq> 0) \<longrightarrow> mape r = PInf)"
proof -
  from assms have "df \<noteq> []" by auto
  from core_total_df [OF this assms(2,3)] obtain r where r: "des_brown alpha (map snd df) = Inr r" ..
  let ?u = "\<lambda>i. snd (df ! i)" and ?p = "\<lambda>i. coef_a r ! (i - 1) + coef_b r ! (i - 1)"
  let ?idx = "[1..<length df]"
  note idx = aligned_indices [OF assms(1)]
  have mem: "i \<in> set ?idx \<longleftrightarrow> 1 \<le> i \<and> i < length df" for i by auto
  have finite: "mape r = Fin (sum_list (map (\<lambda>i. \<bar>(?u i - ?p i) / ?u i\<bar>) ?idx) / real (length df - 1) * 100)"
    if "\<forall>i. 1 \<le> i \<and> i < length df \<longrightarrow> ?u i \<noteq> 0"
  proof -
    from that have "?u i \<noteq> 0" if "i \<in> set ?idx" for i using that mem by blast
    from mape_of_Fin [of ?idx ?u ?p, OF conjunct1 [OF idx] this]
    show ?thesis unfolding core_metrics_df(4) [OF r] conjunct2 [OF idx] by simp
  qed
  have nan: "mape r = NaN"
    if "\<exists>i. 1 \<le> i \<and> i < length df \<and> ?u i = 0 \<and> ?p i = 0"
  proof -
    from that obtain i where "i \<in> set ?idx" "?u i = 0" "?p i = 0" using mem by blast
    then show ?thesis unfolding core_metrics_df(4) [OF r] by (rule mape_of_NaN)
  qed
  have inf: "mape r = PInf"
    if "(\<exists>i. 1 \<le> i \<and> i < length df \<and> ?u i = 0) \<and>
        (\<forall>i. 1 \<le> i \<and> i < length df \<and> ?u i = 0 \<longrightarrow> ?p i \<noteq> 0)"
  proof -
    from that obtain i where i: "i \<in> set ?idx" "?u i = 0" using mem by blast
    from that have "?p j \<noteq> 0" if "j \<in> set ?idx" "?u j = 0" for j using that mem by blast
    with i show ?thesis unfolding core_metrics_df(4) [OF r] by (rule mape_of_PInf)
  qed
  from finite nan inf show ?thesis
    using pages_of_core [OF r] by blast
qed

theorem mape_zero_actual_not_raised_witness:
  "2 \<le> length zero_actual_example \<and> (0::real) < 4 / 5 \<and> (4 / 5 :: real) < 1 \<and>
   (\<exists>i. 1 \<le> i \<and> i < length zero_actual_example \<and> snd (zero_actual_example ! i) = 0) \<and>
   (\<exists>r f1 f2.
      modeling_page_deploy1 (4 / 5) zero_actual_example = Inr (r, f1) \<and>
      modeling_page_deploy2 (4 / 5) zero_actual_example = Inr (r, f2) \<and>
      coef_a r ! 0 + coef_b r ! 0 \<noteq> 0 \<and> mape r = PInf)"
proof -
  have len: "length zero_actual_example = 2" and y1: "snd (zero_actual_example ! 1) = 0"
    by (simp_all add: zero_actual_example_def)
  have h: "2 \<le> length zero_actual_example" "(0::real) < 4 / 5" "(4 / 5 :: real) < 1"
    by (simp_all add: len)
  have z: "\<exists>i. 1 \<le> i \<and> i < length zero_actual_example \<and> snd (zero_actual_example ! i) = 0"
    using y1 len by (intro exI [of _ 1]) simp
  from mape_zero_actual_not_raised [OF h] obtain r f1 f2 where
    p1: "modeling_page_deploy1 (4 / 5) zero_actual_example = Inr (r, f1)" and
    p2: "modeling_page_deploy2 (4 / 5) zero_actual_example = Inr (r, f2)" and
    inf: "(\<exists>i. 1 \<le> i \<and> i < length zero_actual_example \<and> snd (zero_actual_example ! i) = 0) \<and>
          (\<forall>i. 1 \<le> i \<and> i < length zero_actual_example \<and> snd (zero_actual_example ! i) = 0 \<longrightarrow>
               coef_a r ! (i - 1) + coef_b r ! (i - 1) \<noteq> 0) \<longrightarrow> mape r = PInf"
    by blast
  from p2 pages_of_core(1) [OF zero_actual_core]
  have r: "r = \<lparr>S1 = [3 / 5, 3 / 25], S2 = [3 / 5, 27 / 125],
          coef_a = [3 / 5, 3 / 125], coef_b = [0, - (48 / 125)],
          forecast = [NaN, Fin (3 / 5)],
          mae = Fin (3 / 5), mse = Fin (9 / 25), rmse = Fin (3 / 5), mape = PInf\<rparr>"
    by simp
  then have nz: "coef_a r ! 0 + coef_b r ! 0 \<noteq> 0" by simp
  have "coef_a r ! (i - 1) + coef_b r ! (i - 1) \<noteq> 0"
    if "1 \<le> i \<and> i < length zero_actual_example \<and> snd (zero_actual_example ! i) = 0" for i
  proof -
    from that len have "i = 1" by simp
    with nz show ?thesis by simp
  qed
  with inf z have "mape r = PInf" by blast
  with h z p1 p2 nz show ?thesis by blast
qed

theorem mape_zero_actual_counterexample:
  "modeling_page_deploy2 (4 / 5) [(2018, 3 / 5), (2019, 0)] =
     Inr (\<lparr>S1 = [3 / 5, 3 / 25], S2 = [3 / 5, 27 / 125],
           coef_a = [3 / 5, 3 / 125], coef_b = [0, - (48 / 125)],
           forecast = [NaN, Fin (3 / 5)],
           mae = Fin (3 / 5), mse = Fin (9 / 25), rmse = Fin (3 / 5), mape = PInf\<rparr>,
          [(2020, - (9 / 25)), (2021, - (93 / 125)), (2022, - (141 / 125)),
           (2023, - (189 / 125)), (2024, - (237 / 125))])"
  using pages_of_core(1) [OF zero_actual_core]
  by (simp add: zero_actual_example_def df_future_deploy2_def np_arange_def upto.simps range_1_6)

text \<open>
  C7, as the code has it. The pages have no parameter error and no length error, and
  check neither \<open>alpha\<close> nor the length of the series. For every \<open>alpha\<close> other than 1,
  inside \<open>(0, 1)\<close> or not (0, -0.1 and 1.5 included), and every non-empty series, both
  pages return a result. At \<open>alpha = 1\<close> a non-empty series stops with
  \<^verbatim>\<open>ZeroDivisionError\<close>, raised by the quotient \<^verbatim>\<open>alpha/(1-alpha)\<close>. An empty series
  stops with \<^verbatim>\<open>IndexError\<close> at \<^verbatim>\<open>S1 = [y[0]]\<close>, whatever \<open>alpha\<close> is. A series of one
  observation is not rejected: for \<open>alpha\<close> other than 1 the pages return
  \<open>S1 = S2 = a = [y[0]]\<close>, \<open>b = [0]\<close>, \<open>forecast = [nan]\<close> and \<^verbatim>\<open>nan\<close> for the four
  metrics. The slider that feeds \<open>alpha\<close> offers 0.1 to 0.9 only, inside \<open>(0, 1)\<close>.
\<close>

theorem no_parameter_or_length_check:
  "(alpha \<noteq> 1 \<and> df \<noteq> [] \<longrightarrow>
      (\<exists>r f1 f2. modeling_page_deploy1 alpha df = Inr (r, f1) \<and>
                 modeling_page_deploy2 alpha df = Inr (r, f2))) \<and>
   (df \<noteq> [] \<longrightarrow>
      modeling_page_deploy1 1 df = Inl ZeroDivisionError \<and>
      modeling_page_deploy2 1 df = Inl ZeroDivisionError) \<and>
   modeling_page_deploy1 alpha [] = Inl IndexError \<and>
   modeling_page_deploy2 alpha [] = Inl IndexError \<and>
   (alpha \<noteq> 1 \<longrightarrow>
      (\<exists>f1 f2.
         modeling_page_deploy1 alpha [(p, v)] =
           Inr (\<lparr>S1 = [v], S2 = [v], coef_a = [v], coef_b = [0], forecast = [NaN],
                 mae = NaN, mse = NaN, rmse = NaN, mape = NaN\<rparr>, f1) \<and>
         modeling_page_deploy2 alpha [(p, v)] =
           Inr (\<lparr>S1 = [v], S2 = [v], coef_a = [v], coef_b = [0], forecast = [NaN],
                 mae = NaN, mse = NaN, rmse = NaN, mape = NaN\<rparr>, f2))) \<and>
   (alpha_slider alpha \<longrightarrow> 0 < alpha \<and> alpha < 1)"
proof -
  have any: "\<exists>r f1 f2. modeling_page_deploy1 alpha df = Inr (r, f1) \<and>
                 modeling_page_deploy2 alpha df = Inr (r, f2)"
    if "alpha \<noteq> 1 \<and> df \<noteq> []"
  proof -
    from that have "map snd df \<noteq> []" "alpha \<noteq> 1" by simp_all
    from core_total [OF this] obtain r where "des_brown alpha (map snd df) = Inr r" ..
    from pages_of_core [OF this] show ?thesis by blast
  qed
  have one: "modeling_page_deploy1 1 df = Inl ZeroDivisionError \<and>
             modeling_page_deploy2 1 df = Inl ZeroDivisionError" if "df \<noteq> []"
  proof -
    from that have "map snd df \<noteq> []" by simp
    from des_brown_alpha_one [OF this] show ?thesis
      by (simp add: modeling_page_deploy1_def modeling_page_deploy2_def)
  qed
  have empty: "modeling_page_deploy1 alpha [] = Inl IndexError"
    "modeling_page_deploy2 alpha [] = Inl IndexError"
    by (simp_all add: modeling_page_deploy1_def modeling_page_deploy2_def des_brown_empty)
  have single: "\<exists>f1 f2.
         modeling_page_deploy1 alpha [(p, v)] =
           Inr (\<lparr>S1 = [v], S2 = [v], coef_a = [v], coef_b = [0], forecast = [NaN],
                 mae = NaN, mse = NaN, rmse = NaN, mape = NaN\<rparr>, f1) \<and>
         modeling_page_deploy2 alpha [(p, v)] =
           Inr (\<lparr>S1 = [v], S2 = [v], coef_a = [v], coef_b = [0], forecast = [NaN],
                 mae = NaN, mse = NaN, rmse = NaN, mape = NaN\<rparr>, f2)" if "alpha \<noteq> 1"
    using pages_of_core [OF single_row_core [OF that, of p v]] by blast
  from any one empty single alpha_slider_range [of alpha] show ?thesis by blast
qed

theorem no_parameter_or_length_check_witness:
  "((3 / 2 :: real) \<noteq> 1 \<and> two_year_example \<noteq> []) \<and>
   (\<exists>r f1 f2. modeling_page_deploy1 (3 / 2) two_year_example = Inr (r, f1) \<and>
              modeling_page_deploy2 (3 / 2) two_year_example = Inr (r, f2)) \<and>
   modeling_page_deploy1 1 two_year_example = Inl ZeroDivisionError \<and>
   modeling_page_deploy2 1 two_year_example = Inl ZeroDivisionError \<and>
   (\<exists>f1 f2.
      modeling_page_deploy1 (3 / 2) [(2018, 3 / 5)] =
        Inr (\<lparr>S1 = [3 / 5], S2 = [3 / 5], coef_a = [3 / 5], coef_b = [0], forecast = [NaN],
              mae = NaN, mse = NaN, rmse = NaN, mape = NaN\<rparr>, f1) \<and>
      modeling_page_deploy2 (3 / 2) [(2018, 3 / 5)] =
        Inr (\<lparr>S1 = [3 / 5], S2 = [3 / 5], coef_a = [3 / 5], coef_b = [0], forecast = [NaN],
              mae = NaN, mse = NaN, rmse = NaN, mape = NaN\<rparr>, f2)) \<and>
   alpha_slider (4 / 5) \<and> (0::real) < 4 / 5 \<and> (4 / 5 :: real) < 1"
proof -
  have h: "(3 / 2 :: real) \<noteq> 1" "two_year_example \<noteq> []" "alpha_slider (4 / 5)"
    by (simp_all add: two_year_example_def alpha_slider_def)
  note a = no_parameter_or_length_check [of "3 / 2" two_year_example 2018 "3 / 5"]
  note b = no_parameter_or_length_check [of "4 / 5" two_year_example 2018 "3 / 5"]
  from h a b show ?thesis by blast
qed

theorem unchecked_inputs_counterexample:
  "modeling_page_deploy2 (4 / 5) [(2018, 3 / 5)] =
     Inr (\<lparr>S1 = [3 / 5], S2 = [3 / 5], coef_a = [3 / 5], coef_b = [0], forecast = [NaN],
           mae = NaN, mse = NaN, rmse = NaN, mape = NaN\<rparr>,
          [(2019, 3 / 5), (2020, 3 / 5), (2021, 3 / 5), (2022, 3 / 5), (2023, 3 / 5)]) \<and>
   modeling_page_deploy1 (4 / 5) [(2018, 3 / 5)] =
     Inr (\<lparr>S1 = [3 / 5], S2 = [3 / 5], coef_a = [3 / 5], coef_b = [0], forecast = [NaN],
           mae = NaN, mse = NaN, rmse = NaN, mape = NaN\<rparr>,
          [(2022, 3 / 5), (2023, 3 / 5), (2024, 3 / 5), (2025, 3 / 5), (2026, 3 / 5)]) \<and>
   modeling_page_deploy2 (3 / 2) [(2018, 3 / 5), (2019, 31 / 50)] =
     Inr (\<lparr>S1 = [3 / 5, 63 / 100], S2 = [3 / 5, 129 / 200],
           coef_a = [3 / 5, 123 / 200], coef_b = [0, 9 / 200],
           forecast = [NaN, Fin (3 / 5)],
           mae = Fin (1 / 50), mse = Fin (1 / 2500), rmse = Fin (1 / 50), mape = Fin (100 / 31)\<rparr>,
          [(2020, 33 / 50), (2021, 141 / 200), (2022, 3 / 4), (2023, 159 / 200), (2024, 21 / 25)]) \<and>
   modeling_page_deploy2 0 [(2018, 3 / 5), (2019, 31 / 50)] =
     Inr (\<lparr>S1 = [3 / 5, 3 / 5], S2 = [3 / 5, 3 / 5],
           coef_a = [3 / 5, 3 / 5], coef_b = [0, 0],
           forecast = [NaN, Fin (3 / 5)],
           mae = Fin (1 / 50), mse = Fin (1 / 2500), rmse = Fin (1 / 50), mape = Fin (100 / 31)\<rparr>,
          [(2020, 3 / 5), (2021, 3 / 5), (2022, 3 / 5), (2023, 3 / 5), (2024, 3 / 5)]) \<and>
   modeling_page_deploy2 (- (1 / 10)) [(2018, 3 / 5), (2019, 31 / 50)] =
     Inr (\<lparr>S1 = [3 / 5, 299 / 500], S2 = [3 / 5, 3001 / 5000],
           coef_a = [3 / 5, 2979 / 5000], coef_b = [0, 1 / 5000],
           forecast = [NaN, Fin (3 / 5)],
           mae = Fin (1 / 50), mse = Fin (1 / 2500), rmse = Fin (1 / 50), mape = Fin (100 / 31)\<rparr>,
          [(2020, 149 / 250), (2021, 2981 / 5000), (2022, 1491 / 2500), (2023, 2983 / 5000),
           (2024, 373 / 625)])"
proof -
  have "(4 / 5 :: real) \<noteq> 1" by simp
  note s = pages_of_core [OF single_row_core [OF this, of 2018 "3 / 5"]]
  note above = pages_of_core(1) [OF two_year_core_alpha_above, unfolded two_year_example_def]
  note zero = pages_of_core(1) [OF two_year_core_alpha_zero, unfolded two_year_example_def]
  note below = pages_of_core(1) [OF two_year_core_alpha_below, unfolded two_year_example_def]
  show ?thesis
    unfolding s above zero below by (simp add: table_defs)
qed




text \<open>
  C9. For a series of at least two observations and \<open>0 < alpha < 1\<close>, MAE, MSE and
  RMSE are finite and not negative, and the square of RMSE is MSE (over the reals).
\<close>

theorem metrics_nonnegative:
  assumes "2 \<le> length df" and "0 < alpha" and "alpha < 1"
  shows "\<exists>r f1 f2 e_abs e_sq e_root.
           modeling_page_deploy1 alpha df = Inr (r, f1) \<and>
           modeling_page_deploy2 alpha df = Inr (r, f2) \<and>
           mae r = Fin e_abs \<and> mse r = Fin e_sq \<and> rmse r = Fin e_root \<and>
           0 \<le> e_abs \<and> 0 \<le> e_sq \<and> 0 \<le> e_root \<and> e_root ^ 2 = e_sq"
proof -
  from assms have "df \<noteq> []" by auto
  from core_total_df [OF this assms(2,3)] obtain r where r: "des_brown alpha (map snd df) = Inr r" ..
  let ?u = "\<lambda>i. snd (df ! i)" and ?p = "\<lambda>i. coef_a r ! (i - 1) + coef_b r ! (i - 1)"
  let ?idx = "[1..<length df]"
  define e_abs where "e_abs = sum_list (map (\<lambda>i. \<bar>?u i - ?p i\<bar>) ?idx) / real (length ?idx)"
  define e_sq where "e_sq = sum_list (map (\<lambda>i. (?u i - ?p i) * (?u i - ?p i)) ?idx) / real (length ?idx)"
  from aligned_indices [OF assms(1)] have ne: "?idx \<noteq> []" by (rule conjunct1)
  have "mae r = Fin e_abs"
    unfolding core_metrics_df(1) [OF r] e_abs_def by (rule mae_of_Fin [OF ne])
  moreover have "mse r = Fin e_sq"
    unfolding core_metrics_df(2) [OF r] e_sq_def by (rule mse_of_Fin [OF ne])
  moreover have "rmse r = Fin (sqrt e_sq)"
    unfolding core_metrics_df(3) [OF r] e_sq_def by (rule rmse_of_Fin [OF ne])
  moreover have "0 \<le> sum_list (map (\<lambda>i. \<bar>?u i - ?p i\<bar>) ?idx)"
    by (rule sum_list_nonneg_map) simp
  then have "0 \<le> e_abs" unfolding e_abs_def by simp
  moreover have "0 \<le> sum_list (map (\<lambda>i. (?u i - ?p i) * (?u i - ?p i)) ?idx)"
    by (rule sum_list_nonneg_map) simp
  then have sq: "0 \<le> e_sq" unfolding e_sq_def by simp
  moreover from sq have "0 \<le> sqrt e_sq" and "sqrt e_sq ^ 2 = e_sq" by simp_all
  ultimately show ?thesis
    using pages_of_core [OF r] by blast
qed

theorem metrics_nonnegative_witness:
  "2 \<le> length worked_example \<and> (0::real) < 4 / 5 \<and> (4 / 5 :: real) < 1 \<and>
   (\<exists>r f1 f2 e_abs e_sq e_root.
           modeling_page_deploy1 (4 / 5) worked_example = Inr (r, f1) \<and>
           modeling_page_deploy2 (4 / 5) worked_example = Inr (r, f2) \<and>
           mae r = Fin e_abs \<and> mse r = Fin e_sq \<and> rmse r = Fin e_root \<and>
           0 \<le> e_abs \<and> 0 \<le> e_sq \<and> 0 \<le> e_root \<and> e_root ^ 2 = e_sq)"
  using worked_example_valid(1,3,4) metrics_nonnegative [OF worked_example_valid(1,3,4)]
  by (intro conjI) assumption+

text \<open>
  C10. For a series of at least two observations and \<open>0 < alpha < 1\<close>, the first
  defined forecast is the first observation, whatever \<open>alpha\<close> is: \<open>a[0] = y[0]\<close>,
  \<open>b[0] = 0\<close> and \<open>forecast[1] = a[0] + b[0] = y[0]\<close>.
\<close>

theorem first_forecast_is_first_observation:
  assumes "2 \<le> length df" and "0 < alpha" and "alpha < 1"
  shows "\<exists>r f1 f2. modeling_page_deploy1 alpha df = Inr (r, f1) \<and>
           modeling_page_deploy2 alpha df = Inr (r, f2) \<and>
           coef_a r ! 0 = snd (df ! 0) \<and> coef_b r ! 0 = 0 \<and>
           forecast r ! 1 = Fin (coef_a r ! 0 + coef_b r ! 0) \<and>
           forecast r ! 1 = Fin (snd (df ! 0))"
proof -
  from assms have ne: "df \<noteq> []" and pos: "0 < length df" and one: "1 < length df" by auto
  from core_total_df [OF ne assms(2,3)] obtain r where r: "des_brown alpha (map snd df) = Inr r" ..
  have a0: "coef_a r ! 0 = snd (df ! 0)"
    using core_coeffs_nth(3) [OF r pos] core_smoothing_df(3,4) [OF r] by simp
  have b0: "coef_b r ! 0 = 0"
    using core_coeffs_nth(4) [OF r pos] core_smoothing_df(3,4) [OF r] by simp
  have f1: "forecast r ! 1 = Fin (coef_a r ! 0 + coef_b r ! 0)"
    using core_forecast_nth(3) [OF r _ one] by simp
  then have "forecast r ! 1 = Fin (snd (df ! 0))" by (simp add: a0 b0)
  with a0 b0 f1 show ?thesis
    using pages_of_core [OF r] by blast
qed

theorem first_forecast_is_first_observation_witness:
  "2 \<le> length worked_example \<and> (0::real) < 4 / 5 \<and> (4 / 5 :: real) < 1 \<and>
   (\<exists>r f1 f2. modeling_page_deploy1 (4 / 5) worked_example = Inr (r, f1) \<and>
           modeling_page_deploy2 (4 / 5) worked_example = Inr (r, f2) \<and>
           coef_a r ! 0 = snd (worked_example ! 0) \<and> coef_b r ! 0 = 0 \<and>
           forecast r ! 1 = Fin (coef_a r ! 0 + coef_b r ! 0) \<and>
           forecast r ! 1 = Fin (snd (worked_example ! 0)))"
  using worked_example_valid(1,3,4)
    first_forecast_is_first_observation [OF worked_example_valid(1,3,4)]
  by (intro conjI) assumption+

end
